theory Spec2Isabelle
  imports Complex_Main "HOL-Library.Sublist" "HOL-Library.Monad_Syntax"
begin

section \<open>JavaScript strings and numbers\<close>

text \<open>
  A JavaScript string is modelled as a \<open>string\<close> (a list of \<open>char\<close>); one \<open>char\<close>
  stands for one code unit below 256. The fixed Japanese messages of the source are
  constructors of their own (see \<open>notice\<close> and \<open>failure\<close> below).

  A JavaScript number that holds a time in seconds is modelled as a rational number:
  the additions, divisions and floors of the source are then exact.
\<close>

definition is_digit :: "char \<Rightarrow> bool" where
  "is_digit c = (c \<in> set ''0123456789'')"

text \<open>The characters matched by \<open>\s\<close> and removed by \<open>String.prototype.trim\<close>
  (tab, line feed, vertical tab, form feed, carriage return, space, no-break space).\<close>

definition is_space :: "char \<Rightarrow> bool" where
  "is_space c = (of_char c \<in> {9, 10, 11, 12, 13, 32, 160 :: nat})"

definition digit_value :: "char \<Rightarrow> nat" where
  "digit_value c = of_char c - 48"

text \<open>\<open>parseInt(s, 10)\<close> on a string of decimal digits.\<close>

definition parseInt :: "string \<Rightarrow> int" where
  "parseInt s = int (foldl (\<lambda>acc c. 10 * acc + digit_value c) 0 s)"

definition digit_char :: "nat \<Rightarrow> char" where
  "digit_char d = ''0123456789'' ! d"

fun nat_toString :: "nat \<Rightarrow> string" where
  "nat_toString n =
     (if n < 10 then [digit_char n] else nat_toString (n div 10) @ [digit_char (n mod 10)])"

declare nat_toString.simps [simp del]

text \<open>\<open>Number.prototype.toString\<close> on an integral number (below the size from
  which JavaScript prints an exponent).\<close>

definition toString :: "int \<Rightarrow> string" where
  "toString i = (if i < 0 then CHR ''-'' # nat_toString (nat (- i)) else nat_toString (nat i))"

text \<open>\<open>s.padStart(n, '0')\<close>.\<close>

definition padStart0 :: "nat \<Rightarrow> string \<Rightarrow> string" where
  "padStart0 n s = replicate (n - length s) CHR ''0'' @ s"

text \<open>\<open>s.includes(t)\<close>.\<close>

fun str_includes :: "string \<Rightarrow> string \<Rightarrow> bool" where
  "str_includes [] t = (t = [])"
| "str_includes (c # cs) t = (take (length t) (c # cs) = t \<or> str_includes cs t)"

text \<open>\<open>s.trim()\<close>.\<close>

definition trim :: "string \<Rightarrow> string" where
  "trim s = rev (dropWhile is_space (rev (dropWhile is_space s)))"

text \<open>\<open>s.split(c)\<close> for a one-character separator: never the empty list.\<close>

fun split_on :: "char \<Rightarrow> string \<Rightarrow> string list" where
  "split_on c [] = [[]]"
| "split_on c (x # xs) =
     (if x = c then [] # split_on c xs
      else (case split_on c xs of [] \<Rightarrow> [[x]] | y # ys \<Rightarrow> (x # y) # ys))"


text \<open>\<open>Math.round\<close>: the nearest integer, a tie going up.\<close>

definition Math_round :: "rat \<Rightarrow> int" where
  "Math_round x = \<lfloor>x + 1 / 2\<rfloor>"

text \<open>The remainder operator \<open>%\<close> on numbers: the quotient is truncated towards zero.\<close>

definition js_rem :: "rat \<Rightarrow> rat \<Rightarrow> rat" where
  "js_rem a b = a - b * of_int (if 0 \<le> a / b then \<lfloor>a / b\<rfloor> else \<lceil>a / b\<rceil>)"

section \<open>The path module of the platform (POSIX flavour)\<close>

definition isAbsolute :: "string \<Rightarrow> bool" where
  "isAbsolute p = (case p of [] \<Rightarrow> False | c # _ \<Rightarrow> c = CHR ''/'')"

text \<open>The segment walk of \<open>normalizeString\<close>: empty and \<open>.\<close> segments are dropped,
  \<open>..\<close> removes the segment before it, or is kept when allowed above the root.
  The accumulator holds the kept segments, last one first.\<close>

fun normalize_segments :: "bool \<Rightarrow> string list \<Rightarrow> string list \<Rightarrow> string list" where
  "normalize_segments allowAbove acc [] = rev acc"
| "normalize_segments allowAbove acc (s # ss) =
     (if s = [] \<or> s = ''.'' then normalize_segments allowAbove acc ss
      else if s = ''..'' then
        (case acc of
           [] \<Rightarrow> normalize_segments allowAbove (if allowAbove then [''..''] else []) ss
         | a # as \<Rightarrow>
             if a = ''..'' then normalize_segments allowAbove (''..'' # a # as) ss
             else normalize_segments allowAbove as ss)
      else normalize_segments allowAbove (s # acc) ss)"

fun join_with :: "string \<Rightarrow> string list \<Rightarrow> string" where
  "join_with sep [] = []"
| "join_with sep [s] = s"
| "join_with sep (s # t # ss) = s @ sep @ join_with sep (t # ss)"

definition normalizeString :: "string \<Rightarrow> bool \<Rightarrow> string" where
  "normalizeString p allowAbove = join_with ''/'' (normalize_segments allowAbove [] (split_on CHR ''/'' p))"

definition path_normalize :: "string \<Rightarrow> string" where
  "path_normalize p =
     (if p = [] then ''.''
      else
        let isAbs = isAbsolute p;
            trailing = (last p = CHR ''/'');
            q = normalizeString p (\<not> isAbs)
        in if q = [] then (if isAbs then ''/'' else if trailing then ''./'' else ''.'')
           else (if isAbs then ''/'' else []) @ q @ (if trailing then ''/'' else []))"

text \<open>\<open>path.join(...)\<close>: the non-empty arguments joined by \<open>/\<close>, then normalised.\<close>

definition path_join :: "string list \<Rightarrow> string" where
  "path_join args =
     (let parts = filter (\<lambda>a. a \<noteq> []) args
      in if parts = [] then ''.'' else path_normalize (join_with ''/'' parts))"

text \<open>\<open>path.dirname\<close>: the scan runs from the last character down to index 1 and stops at
  the first separator that follows a non-separator.\<close>

fun dirname_scan :: "string \<Rightarrow> nat \<Rightarrow> bool \<Rightarrow> nat option" where
  "dirname_scan p 0 matched = None"
| "dirname_scan p (Suc i) matched =
     (if p ! Suc i = CHR ''/'' then
        (if \<not> matched then Some (Suc i) else dirname_scan p i matched)
      else dirname_scan p i False)"

definition dirname :: "string \<Rightarrow> string" where
  "dirname p =
     (if p = [] then ''.''
      else
        let hasRoot = (hd p = CHR ''/'')
        in case dirname_scan p (length p - 1) True of
             None \<Rightarrow> (if hasRoot then ''/'' else ''.'')
           | Some e \<Rightarrow> (if hasRoot \<and> e = 1 then ''//'' else take e p))"

text \<open>\<open>path.resolve(p)\<close> with one argument; \<open>cwd\<close> is the working directory of the
  process (an absolute path), used when \<open>p\<close> is not absolute.\<close>

definition resolve :: "string \<Rightarrow> string \<Rightarrow> string" where
  "resolve cwd p =
     (let full = (if p = [] then cwd else if isAbsolute p then p else cwd @ ''/'' @ p);
          isAbs = isAbsolute full;
          q = normalizeString full (\<not> isAbs)
      in if isAbs then CHR ''/'' # q else if q = [] then ''.'' else q)"

text \<open>\<open>path.extname\<close>: from the last dot of the last segment, unless that dot starts the
  segment or the segment is \<open>..\<close>. \<open>path.basename(p, ext)\<close>: the last segment, without
  \<open>ext\<close> when it ends with it and is longer.\<close>

definition last_segment :: "string \<Rightarrow> string" where
  "last_segment p = rev (takeWhile (\<lambda>c. c \<noteq> CHR ''/'') (dropWhile (\<lambda>c. c = CHR ''/'') (rev p)))"

definition extname :: "string \<Rightarrow> string" where
  "extname p =
     (let seg = last_segment p;
          after = rev (takeWhile (\<lambda>c. c \<noteq> CHR ''.'') (rev seg))
      in if CHR ''.'' \<notin> set seg \<or> seg = ''..'' \<or> length after + 1 = length seg then []
         else CHR ''.'' # after)"

definition basename :: "string \<Rightarrow> string \<Rightarrow> string" where
  "basename p ext =
     (let seg = last_segment p
      in if ext \<noteq> [] \<and> ext = p then []
         else if ext \<noteq> [] \<and> length ext < length seg
                 \<and> drop (length seg - length ext) seg = ext
         then take (length seg - length ext) seg else seg)"

section \<open>Time display and timestamp parsing\<close>

definition formatTime :: "rat \<Rightarrow> string" where
  "formatTime timeInSeconds =
     (let hours = \<lfloor>timeInSeconds / 3600\<rfloor>;
          minutes = \<lfloor>js_rem timeInSeconds 3600 / 60\<rfloor>;
          seconds = \<lfloor>js_rem timeInSeconds 60\<rfloor>
      in if hours > 0
         then toString hours @ '':'' @ padStart0 2 (toString minutes) @ '':''
                @ padStart0 2 (toString seconds)
         else toString minutes @ '':'' @ padStart0 2 (toString seconds))"

text \<open>Pieces of the regular expressions: \<open>\d{n}\<close> and one literal character, each
  returning what it consumed and the rest.\<close>

definition digits :: "nat \<Rightarrow> string \<Rightarrow> (string \<times> string) option" where
  "digits n s =
     (if n \<le> length s \<and> list_all is_digit (take n s) then Some (take n s, drop n s) else None)"

definition lit :: "char \<Rightarrow> string \<Rightarrow> string option" where
  "lit c s = (case s of [] \<Rightarrow> None | x # xs \<Rightarrow> if x = c then Some xs else None)"

text \<open>\<open>(\d{2}):(\d{2})\.(\d{3})\<close> after an optional \<open>(\d{2}):\<close>; the three groups and
  the rest of the input.\<close>

definition min_sec_ms :: "string \<Rightarrow> (string \<times> string \<times> string \<times> string) option" where
  "min_sec_ms s = do {
     (m, r1) \<leftarrow> digits 2 s;
     r2 \<leftarrow> lit CHR '':'' r1;
     (sec, r3) \<leftarrow> digits 2 r2;
     r4 \<leftarrow> lit CHR ''.'' r3;
     (ms, r5) \<leftarrow> digits 3 r4;
     Some (m, sec, ms, r5)
   }"

text \<open>\<open>(?:(\d{2}):)?(\d{2}):(\d{2})\.(\d{3})\<close>: the branch with the hour group is tried
  first. The two branches exclude each other (after \<open>dd:dd\<close> one needs \<open>:\<close>, the other
  \<open>.\<close>), so no later failure can send the matcher back to the other branch.\<close>

definition with_hour :: "string \<Rightarrow> (string option \<times> string \<times> string \<times> string \<times> string) option" where
  "with_hour s = do {
     (h, r1) \<leftarrow> digits 2 s;
     r2 \<leftarrow> lit CHR '':'' r1;
     (m, sec, ms, r) \<leftarrow> min_sec_ms r2;
     Some (Some h, m, sec, ms, r)
   }"

definition without_hour :: "string \<Rightarrow> (string option \<times> string \<times> string \<times> string \<times> string) option" where
  "without_hour s = do {
     (m, sec, ms, r) \<leftarrow> min_sec_ms s;
     Some (None, m, sec, ms, r)
   }"

definition opt_hour_stamp ::
  "string \<Rightarrow> (string option \<times> string \<times> string \<times> string \<times> string) option" where
  "opt_hour_stamp s = (case with_hour s of Some g \<Rightarrow> Some g | None \<Rightarrow> without_hour s)"

text \<open>The match of \<open>/^(?:(\d{2}):)?(\d{2}):(\d{2})\.(\d{3})$/\<close>: groups 1 to 4.\<close>

definition timestamp_match :: "string \<Rightarrow> (string option \<times> string \<times> string \<times> string) option" where
  "timestamp_match s =
     (case opt_hour_stamp s of
        Some (h, m, sec, ms, r) \<Rightarrow> if r = [] then Some (h, m, sec, ms) else None
      | None \<Rightarrow> None)"

definition parseTimestamp :: "string \<Rightarrow> rat" where
  "parseTimestamp timestamp =
     (case timestamp_match timestamp of
        None \<Rightarrow> 0
      | Some (g1, g2, g3, g4) \<Rightarrow>
          let hours = (case g1 of Some h \<Rightarrow> parseInt h | None \<Rightarrow> 0);
              minutes = parseInt g2;
              seconds = parseInt g3;
              milliseconds = parseInt g4
          in of_int (hours * 3600) + of_int (minutes * 60) + of_int seconds
               + of_int milliseconds / 1000)"

section \<open>Messages and failures\<close>

text \<open>What the source passes to \<open>onProgressUpdate\<close>. The texts built from a template
  with ASCII words are kept as text; the fixed Japanese messages are constructors.\<close>

datatype notice =
    ProgressText string
  | Transcribing
  | TranscriptionDone
  | Mp3Saved string

text \<open>The errors the source throws or rejects with, one constructor per message:
  the recognizer or its interpreter is not on disk; the result file is missing or
  cannot be read; the recognizer exited with a non-zero code; the archive stage
  failed; a file operation or a conversion failed.\<close>

datatype failure =
    WhisperNotFound string
  | InterpreterNotFound string
  | ResultFileNotFound
  | ResultReadFailed failure
  | TranscriptionFailed string
  | VaultPathUnavailable
  | SourceFileNotFound string
  | Mp3SaveFailed
  | IoError string string
  | FfmpegError string

text \<open>The names the specification gives to two groups of failures.\<close>

fun DependencyMissing :: "failure \<Rightarrow> bool" where
  "DependencyMissing (WhisperNotFound p) = True"
| "DependencyMissing (InterpreterNotFound p) = True"
| "DependencyMissing f = False"

fun ResultArtifactMissing :: "failure \<Rightarrow> bool" where
  "ResultArtifactMissing ResultFileNotFound = True"
| "ResultArtifactMissing f = False"

text \<open>How a promise of the source stands once nothing more can happen to it: resolved
  with a value, rejected with an error, or never settled.\<close>

datatype 'a promise = Resolved 'a | Rejected failure | Pending

text \<open>The calls of \<open>console.error\<close> that the claims speak of. The other calls of
  \<open>console.log\<close> and \<open>console.error\<close> only print and are left out.\<close>

datatype console_entry =
    FfmpegCancelFailed
  | WhisperCancelFailed
  | Mp3SaveError failure
  | TempDeleteError failure
  | ProcessingFailed failure
  | ResultUnlinkFailed failure

section \<open>The standard-output handler of the recognizer\<close>

text \<open>The six groups of
  \<open>/\[(?:(\d{2}):)?(\d{2}):(\d{2}\.\d{3})\s*-->\s*(?:(\d{2}):)?(\d{2}):(\d{2}\.\d{3})\]/\<close>.\<close>

record range_groups =
  g1 :: "string option"
  g2 :: string
  g3 :: string
  g4 :: "string option"
  g5 :: string
  g6 :: string

definition skip_spaces :: "string \<Rightarrow> string" where
  "skip_spaces s = dropWhile is_space s"

definition arrow :: "string \<Rightarrow> string option" where
  "arrow s = (if take 3 s = ''-->'' then Some (drop 3 s) else None)"

text \<open>The match of the expression at the start of \<open>s\<close>.\<close>

definition range_match_here :: "string \<Rightarrow> range_groups option" where
  "range_match_here s = do {
     r0 \<leftarrow> lit CHR ''['' s;
     (h1, m1, s1, ms1, r1) \<leftarrow> opt_hour_stamp r0;
     r2 \<leftarrow> arrow (skip_spaces r1);
     (h2, m2, s2, ms2, r3) \<leftarrow> opt_hour_stamp (skip_spaces r2);
     r4 \<leftarrow> lit CHR '']'' r3;
     Some \<lparr>g1 = h1, g2 = m1, g3 = s1 @ ''.'' @ ms1,
           g4 = h2, g5 = m2, g6 = s2 @ ''.'' @ ms2\<rparr>
   }"

text \<open>\<open>line.match(...)\<close>: the leftmost match.\<close>

fun range_match :: "string \<Rightarrow> range_groups option" where
  "range_match [] = range_match_here []"
| "range_match (c # cs) =
     (case range_match_here (c # cs) of Some g \<Rightarrow> Some g | None \<Rightarrow> range_match cs)"

text \<open>The string handed to \<open>parseTimestamp\<close>: groups 4, 5, 6 when group 4 matched,
  groups 2 and 3 otherwise.\<close>

definition endTimeStr :: "range_groups \<Rightarrow> string" where
  "endTimeStr g =
     (case g4 g of
        Some h \<Rightarrow> h @ '':'' @ g5 g @ '':'' @ g6 g
      | None \<Rightarrow> g2 g @ '':'' @ g3 g)"

text \<open>The variables of the closure of \<open>runTranscription\<close> that the handler reads and
  writes, the calls of \<open>onProgressUpdate\<close> it makes (\<open>notified\<close>), and the
  \<open>[Progress]\<close> records it logs (percent and \<open>currentTime\<close>), in order.\<close>

record stdout_state =
  transcription :: string
  lastProgressUpdate :: rat
  buffer :: string
  notified :: "notice list"
  progress_log :: "(int \<times> rat) list"

definition truthy :: "rat option \<Rightarrow> bool" where
  "truthy d = (case d of None \<Rightarrow> False | Some x \<Rightarrow> x \<noteq> 0)"

text \<open>\<open>Math.min(Math.round((currentTime / totalDuration) * 100), 100)\<close>. The quotient
  and the product are exact here; the source rounds each of them to a double first, so
  its percent can be one off where the exact product is within a rounding error of a
  half (1.45 seconds of 10 give 15 here and 14 in the source).\<close>

definition percent_of :: "rat \<Rightarrow> rat \<Rightarrow> int" where
  "percent_of currentTime totalDuration =
     min (Math_round (currentTime / totalDuration * 100)) 100"

definition progress_text :: "rat \<Rightarrow> rat \<Rightarrow> string" where
  "progress_text currentTime totalDuration =
     formatTime currentTime @ '' / '' @ formatTime totalDuration
       @ '' ('' @ toString (percent_of currentTime totalDuration) @ ''%)''"

text \<open>The body of \<open>if (timestampMatch)\<close>.\<close>

definition apply_timestamp :: "rat option \<Rightarrow> stdout_state \<Rightarrow> rat \<Rightarrow> stdout_state" where
  "apply_timestamp totalDuration st currentTime =
     (if truthy totalDuration \<and> currentTime > lastProgressUpdate st
      then st\<lparr>lastProgressUpdate := currentTime,
              notified := notified st @ [ProgressText (progress_text currentTime (the totalDuration))],
              progress_log := progress_log st
                 @ [(percent_of currentTime (the totalDuration), currentTime)]\<rparr>
      else st\<lparr>notified := notified st @ [Transcribing]\<rparr>)"

text \<open>The body of \<open>for (const line of lines)\<close>.\<close>

definition handle_line :: "rat option \<Rightarrow> stdout_state \<Rightarrow> string \<Rightarrow> stdout_state" where
  "handle_line totalDuration st line =
     (let st1 = st\<lparr>transcription := transcription st @ line @ [CHR 0x0A]\<rparr>
      in case range_match line of
           None \<Rightarrow> st1
         | Some g \<Rightarrow> apply_timestamp totalDuration st1 (parseTimestamp (endTimeStr g)))"

text \<open>One \<open>data\<close> event: the chunk is appended to the buffer, the complete lines are
  handled, the last piece stays in the buffer.\<close>

definition on_stdout_data :: "rat option \<Rightarrow> stdout_state \<Rightarrow> string \<Rightarrow> stdout_state" where
  "on_stdout_data totalDuration st data =
     (let lines = split_on (CHR 0x0A) (buffer st @ data)
      in foldl (handle_line totalDuration) (st\<lparr>buffer := last lines\<rparr>) (butlast lines))"

definition stdout_start :: stdout_state where
  "stdout_start = \<lparr>transcription = [], lastProgressUpdate = 0, buffer = [],
                    notified = [], progress_log = []\<rparr>"

text \<open>What holds of the handler's variables at every moment: the logged elapsed values
  increase strictly, all are positive, and \<open>lastProgressUpdate\<close> is the last of them
  (or still 0).\<close>

definition progress_inv :: "stdout_state \<Rightarrow> bool" where
  "progress_inv st =
     (sorted_wrt (<) (map snd (progress_log st))
      \<and> list_all (\<lambda>x. 0 < x) (map snd (progress_log st))
      \<and> lastProgressUpdate st = (if progress_log st = [] then 0 else snd (last (progress_log st))))"

text \<open>Group 1 of the timestamp expression as a number: 0 when the hour is absent.\<close>

definition hours_of :: "string option \<Rightarrow> int" where
  "hours_of g = (case g of Some h \<Rightarrow> parseInt h | None \<Rightarrow> 0)"

text \<open>The text of a timestamp from its fields, a field of \<open>n\<close> decimal digits, and an
  hour field that is absent or has two digits.\<close>

definition stamp_text :: "string option \<Rightarrow> string \<Rightarrow> string \<Rightarrow> string \<Rightarrow> string" where
  "stamp_text h m s ms =
     (case h of None \<Rightarrow> [] | Some hh \<Rightarrow> hh @ '':'') @ m @ '':'' @ s @ ''.'' @ ms"

definition digit_field :: "nat \<Rightarrow> string \<Rightarrow> bool" where
  "digit_field n d = (length d = n \<and> list_all is_digit d)"

definition hour_field :: "string option \<Rightarrow> bool" where
  "hour_field h = (case h of None \<Rightarrow> True | Some hh \<Rightarrow> digit_field 2 hh)"

section \<open>The processor, the file system and the external processes\<close>

text \<open>The fields of class \<open>AudioProcessor\<close>; a running command or child process is a
  handle, \<open>null\<close> is \<open>None\<close>. The two callbacks of the class write to the lists
  \<open>notices\<close> and \<open>errors\<close> of the world below.\<close>

type_synonym handle = nat

record AudioProcessor =
  tempDir :: string
  venvPath :: string
  mlxWhisperPath :: string
  currentChildProcess :: "handle option"
  currentFfmpegCommand :: "handle option"

text \<open>The constructor; \<open>home\<close> is \<open>process.env.HOME || ''\<close>.\<close>

definition new_AudioProcessor :: "string \<Rightarrow> string \<Rightarrow> AudioProcessor" where
  "new_AudioProcessor home dir =
     (let venv = path_join [home, ''Documents'', ''obsidian'', ''whisper-env'']
      in \<lparr>tempDir = dir, venvPath = venv,
          mlxWhisperPath = path_join [venv, ''bin'', ''mlx_whisper''],
          currentChildProcess = None, currentFfmpegCommand = None\<rparr>)"

record settings =
  language :: string
  modelSize :: string
  audioDir :: string

text \<open>What the source passes to \<open>onError\<close>.\<close>

datatype error_notice =
    TranscriptionErrorNotice string
  | AudioSaveFailedNotice failure

text \<open>Everything outside the processor: the regular files (by resolved path) with their
  contents, the directories, the paths whose removal is refused, the working directory,
  the calls received by the two callbacks and by \<open>console.error\<close>, the \<open>spawn\<close> calls
  made, the handles that were sent \<open>SIGTERM\<close>, the handles on which \<open>kill\<close> throws,
  and the next fresh handle.\<close>

record world =
  files :: "string \<rightharpoonup> string"
  dirs :: "string set"
  locked :: "string set"
  cwd :: string
  notices :: "notice list"
  errors :: "error_notice list"
  console :: "console_entry list"
  spawned :: "(string \<times> string list) list"
  signalled :: "handle list"
  kill_throws :: "handle set"
  next_handle :: handle

definition key :: "world \<Rightarrow> string \<Rightarrow> string" where
  "key w p = resolve (cwd w) p"

definition existsSync :: "world \<Rightarrow> string \<Rightarrow> bool" where
  "existsSync w p = (files w (key w p) \<noteq> None \<or> key w p \<in> dirs w)"

text \<open>Reading fails on a missing path and on a directory.\<close>

definition readFile :: "world \<Rightarrow> string \<Rightarrow> failure + string" where
  "readFile w p =
     (case files w (key w p) of None \<Rightarrow> Inl (IoError ''read'' p) | Some c \<Rightarrow> Inr c)"

text \<open>Removing a file fails when nothing is there and when the removal is refused.\<close>

definition unlinkSync :: "world \<Rightarrow> string \<Rightarrow> failure + world" where
  "unlinkSync w p =
     (if files w (key w p) = None \<or> key w p \<in> locked w then Inl (IoError ''unlink'' p)
      else Inr (w\<lparr>files := (files w)(key w p := None)\<rparr>))"

text \<open>Writing a file needs its directory, and no directory of the same name.\<close>

definition writable :: "world \<Rightarrow> string \<Rightarrow> bool" where
  "writable w p = (dirname (key w p) \<in> dirs w \<and> key w p \<notin> dirs w)"


definition copyFile :: "world \<Rightarrow> string \<Rightarrow> string \<Rightarrow> failure + world" where
  "copyFile w src dst =
     (case files w (key w src) of
        None \<Rightarrow> Inl (IoError ''copy'' src)
      | Some c \<Rightarrow>
          if writable w dst then Inr (w\<lparr>files := (files w)(key w dst \<mapsto> c)\<rparr>)
          else Inl (IoError ''copy'' dst))"

text \<open>The directory itself and every directory above it, for a resolved path.\<close>

definition ancestors :: "string \<Rightarrow> string list" where
  "ancestors d =
     map (\<lambda>segs. CHR ''/'' # join_with ''/'' segs)
       (prefixes (filter (\<lambda>seg. seg \<noteq> []) (split_on CHR ''/'' d)))"

text \<open>\<open>mkdir(d, {recursive: true})\<close>: the missing directories are created; it fails when
  a regular file is in the way.\<close>

definition mkdir_recursive :: "world \<Rightarrow> string \<Rightarrow> failure + world" where
  "mkdir_recursive w d =
     (if list_ex (\<lambda>a. files w a \<noteq> None) (ancestors (key w d)) then Inl (IoError ''mkdir'' d)
      else Inr (w\<lparr>dirs := dirs w \<union> set (ancestors (key w d))\<rparr>))"

definition notify :: "notice \<Rightarrow> world \<Rightarrow> world" where
  "notify n w = w\<lparr>notices := notices w @ [n]\<rparr>"

definition console_error :: "console_entry \<Rightarrow> world \<Rightarrow> world" where
  "console_error e w = w\<lparr>console := console w @ [e]\<rparr>"

text \<open>What an external process does to the files: it leaves a file with some contents,
  or a file goes away.\<close>

definition put_file :: "world \<Rightarrow> string \<times> string \<Rightarrow> world" where
  "put_file w pc = w\<lparr>files := (files w)(key w (fst pc) \<mapsto> snd pc)\<rparr>"

definition drop_file :: "world \<Rightarrow> string \<Rightarrow> world" where
  "drop_file w p = w\<lparr>files := (files w)(key w p := None)\<rparr>"

subsection \<open>Cancellation\<close>

text \<open>\<open>kill('SIGTERM')\<close> on a handle: it throws, or the handle receives the signal.\<close>

definition kill :: "world \<Rightarrow> handle \<Rightarrow> world option" where
  "kill w h = (if h \<in> kill_throws w then None else Some (w\<lparr>signalled := signalled w @ [h]\<rparr>))"

definition cancel_ffmpeg :: "AudioProcessor \<times> world \<Rightarrow> AudioProcessor \<times> world" where
  "cancel_ffmpeg s =
     (case s of (ap, w) \<Rightarrow>
        (case currentFfmpegCommand ap of
           None \<Rightarrow> (ap, w)
         | Some h \<Rightarrow>
             (case kill w h of
                Some w' \<Rightarrow> (ap\<lparr>currentFfmpegCommand := None\<rparr>, w')
              | None \<Rightarrow> (ap, console_error FfmpegCancelFailed w))))"

definition cancel_whisper :: "AudioProcessor \<times> world \<Rightarrow> AudioProcessor \<times> world" where
  "cancel_whisper s =
     (case s of (ap, w) \<Rightarrow>
        (case currentChildProcess ap of
           None \<Rightarrow> (ap, w)
         | Some h \<Rightarrow>
             (case kill w h of
                Some w' \<Rightarrow> (ap\<lparr>currentChildProcess := None\<rparr>, w')
              | None \<Rightarrow> (ap, console_error WhisperCancelFailed w))))"

definition cancelProcessing :: "AudioProcessor \<times> world \<Rightarrow> AudioProcessor \<times> world" where
  "cancelProcessing s = cancel_whisper (cancel_ffmpeg s)"

subsection \<open>The two conversions\<close>

text \<open>What the conversion engine does is an input of the model: the events of the two
  commands in the order in which they arrive. A command reports progress (the value of
  \<open>progress.percent\<close>, \<open>None\<close> when absent), ends after it has written its output
  file, or fails.\<close>

datatype command = Mp3 | Wav

datatype ffmpeg_event =
    Progress command "rat option"
  | End command string
  | Error command string


text \<open>The part of \<open>convertToMp3\<close> and of \<open>convertToWav\<close> that runs at once, inside the
  call: the command is built and started, and stored in \<open>currentFfmpegCommand\<close>.\<close>

definition start_command :: "AudioProcessor \<times> world \<Rightarrow> handle \<times> AudioProcessor \<times> world" where
  "start_command s =
     (case s of (ap, w) \<Rightarrow>
        (next_handle w, ap\<lparr>currentFfmpegCommand := Some (next_handle w)\<rparr>,
         w\<lparr>next_handle := Suc (next_handle w)\<rparr>))"



text \<open>\<open>Promise.all([this.convertToMp3(...), this.convertToWav(...)])\<close> up to the point
  where it waits: both calls have run their synchronous part, the mp3 command first,
  the wav command second. The result holds the two handles.\<close>

definition start_conversions ::
  "AudioProcessor \<times> world \<Rightarrow> (handle \<times> handle) \<times> AudioProcessor \<times> world" where
  "start_conversions s =
     (case start_command s of (mp3, ap1, w1) \<Rightarrow>
        (case start_command (ap1, w1) of (wav, ap2, w2) \<Rightarrow> ((mp3, wav), ap2, w2)))"




subsection \<open>The transcription runner\<close>

text \<open>The argument list handed to \<open>spawn\<close> after the interpreter. The model id is the
  constant of the source.\<close>

definition whisper_command :: "AudioProcessor \<Rightarrow> string \<Rightarrow> settings \<Rightarrow> string list" where
  "whisper_command ap audioPath st =
     [mlxWhisperPath ap, audioPath,
      ''--model'', ''mlx-community/whisper-large-v3-turbo'',
      ''--language'', language st,
      ''--output-format'', ''txt'',
      ''--output-dir'', tempDir ap,
      ''--condition-on-previous-text'', ''False'']"

text \<open>The argument list of the other copy of the class in the repository (the one whose
  runner reads \<open>Progress: N%\<close> lines): the model id is built from \<open>modelSize\<close>.\<close>

definition whisper_command_by_size :: "AudioProcessor \<Rightarrow> string \<Rightarrow> settings \<Rightarrow> string list" where
  "whisper_command_by_size ap audioPath st =
     [mlxWhisperPath ap, audioPath,
      ''--model'', ''mlx-community/whisper-'' @ modelSize st @ ''-v3-turbo'',
      ''--language'', language st,
      ''--output-format'', ''txt'',
      ''--output-dir'', tempDir ap,
      ''--verbose'', ''False'']"

text \<open>What the recognizer and its surroundings do during one run is an input of the
  model: the duration found by the probe (\<open>None\<close> when the probe fails or reports none),
  whether the process has closed before the probe answers, the chunks of the two output
  streams that arrive once the handlers are attached, the exit code, the files the
  recognizer wrote, and the files that went away while it ran. The process is taken to
  exit at some time.\<close>

record recognizer_run =
  probed :: "rat option"
  closes_before_probe :: bool
  stdout_chunks :: "string list"
  stderr_chunks :: "string list"
  exit_code :: int
  written :: "(string \<times> string) list"
  removed :: "string list"

definition environment_after :: "recognizer_run \<Rightarrow> world \<Rightarrow> world" where
  "environment_after run w = foldl drop_file (foldl put_file w (written run)) (removed run)"

text \<open>The handler of the error stream.\<close>

definition on_stderr_data :: "world \<Rightarrow> string \<Rightarrow> world" where
  "on_stderr_data w output =
     (if str_includes output ''Error'' \<or> str_includes output ''error''
      then w\<lparr>errors := errors w @ [TranscriptionErrorNotice output]\<rparr> else w)"

text \<open>\<open>transcription.match(/Error: (.*?)$/m)?.[1]\<close>: what follows the first
  \<open>Error: \<close> up to the end of its line; \<open>None\<close> when there is no match.\<close>

fun after_first :: "string \<Rightarrow> string \<Rightarrow> string option" where
  "after_first pat [] = (if pat = [] then Some [] else None)"
| "after_first pat (c # cs) =
     (if take (length pat) (c # cs) = pat then Some (drop (length pat) (c # cs))
      else after_first pat cs)"

definition is_line_end :: "char \<Rightarrow> bool" where
  "is_line_end c = (c = CHR 0x0A \<or> c = CHR 0x0D)"

definition errorMsg_of :: "string \<Rightarrow> string" where
  "errorMsg_of tr =
     (if str_includes tr ''Error:''
      then (case after_first ''Error: '' tr of
              None \<Rightarrow> ''Unknown error''
            | Some rest \<Rightarrow>
                let m = takeWhile (\<lambda>c. \<not> is_line_end c) rest
                in if m = [] then ''Unknown error'' else m)
      else tr)"

definition outputPath_of :: "AudioProcessor \<Rightarrow> string \<Rightarrow> string" where
  "outputPath_of ap audioPath =
     path_join [tempDir ap, basename audioPath (extname audioPath) @ ''.txt'']"

text \<open>The \<open>close\<close> handler, but for the clearing of the handle: on code 0 the result file
  is read, trimmed and returned, and then removed (a failure of that removal goes to
  the console); a missing result file and a failed read are failures; on another code
  the failure carries the message taken from what was accumulated from standard
  output.\<close>

definition on_close :: "string \<Rightarrow> string \<Rightarrow> int \<Rightarrow> world \<Rightarrow> string promise \<times> world" where
  "on_close outputPath tr code w =
     (if code = 0 then
        (if existsSync w outputPath then
           (case readFile w outputPath of
              Inl e \<Rightarrow> (Rejected (ResultReadFailed e), w)
            | Inr result \<Rightarrow>
                let w1 = notify TranscriptionDone w
                in (Resolved (trim result),
                    case unlinkSync w1 outputPath of
                      Inr w2 \<Rightarrow> w2
                    | Inl e \<Rightarrow> console_error (ResultUnlinkFailed e) w1))
         else (Rejected ResultFileNotFound, w))
      else (Rejected (TranscriptionFailed (errorMsg_of tr)), w))"

text \<open>The call of \<open>spawn\<close>: the argument list is built, the process is started and
  stored in \<open>currentChildProcess\<close>.\<close>

definition spawn_recognizer ::
  "string \<Rightarrow> settings \<Rightarrow> AudioProcessor \<times> world \<Rightarrow> AudioProcessor \<times> world" where
  "spawn_recognizer audioPath st s =
     (case s of (ap, w) \<Rightarrow>
        (ap\<lparr>currentChildProcess := Some (next_handle w)\<rparr>,
         w\<lparr>spawned := spawned w @ [(path_join [venvPath ap, ''bin'', ''python3''],
                                     whisper_command ap audioPath st)],
           next_handle := Suc (next_handle w)\<rparr>))"

text \<open>The handlers of the two output streams over the chunks of a run: the variables of
  the closure at the end, and the world with the notices and errors they passed on.\<close>

definition listen :: "recognizer_run \<Rightarrow> world \<Rightarrow> stdout_state \<times> world" where
  "listen run w =
     (let out = foldl (on_stdout_data (probed run)) stdout_start (stdout_chunks run)
      in (out, foldl on_stderr_data (w\<lparr>notices := notices w @ notified out\<rparr>) (stderr_chunks run)))"

text \<open>\<open>runTranscription\<close>. The two checks come first and reject at once. Then the
  process is spawned. The handlers of the streams and of \<open>close\<close> are attached only when
  the probe has answered: a process that has closed by then is never heard of, the
  promise never settles and the handle stays in \<open>currentChildProcess\<close>. Otherwise the
  stream handlers run over the chunks, and the \<open>close\<close> handler settles the promise and
  clears the handle.\<close>

definition runTranscription ::
  "recognizer_run \<Rightarrow> string \<Rightarrow> settings \<Rightarrow> AudioProcessor \<times> world
     \<Rightarrow> string promise \<times> AudioProcessor \<times> world" where
  "runTranscription run audioPath st s =
     (case s of (ap, w) \<Rightarrow>
        if \<not> existsSync w (mlxWhisperPath ap)
        then (Rejected (WhisperNotFound (mlxWhisperPath ap)), ap, w)
        else
          let venvPython = path_join [venvPath ap, ''bin'', ''python3'']
          in if \<not> existsSync w venvPython then (Rejected (InterpreterNotFound venvPython), ap, w)
             else
               (case spawn_recognizer audioPath st (ap, w) of
                  (ap1, w1) \<Rightarrow>
                    if closes_before_probe run then (Pending, ap1, environment_after run w1)
                    else
                      (case listen run w1 of
                         (out, w3) \<Rightarrow>
                           (case on_close (outputPath_of ap audioPath) (transcription out)
                                   (exit_code run) (environment_after run w3) of
                              (r, w5) \<Rightarrow> (r, ap1\<lparr>currentChildProcess := None\<rparr>, w5)))))"

definition transcribeExternalFile ::
  "recognizer_run \<Rightarrow> string \<Rightarrow> settings \<Rightarrow> AudioProcessor \<times> world
     \<Rightarrow> string promise \<times> AudioProcessor \<times> world" where
  "transcribeExternalFile run filePath st s = runTranscription run filePath st s"

subsection \<open>The pipeline\<close>

text \<open>The directory the archive copy goes to: the setting itself when absolute, else the
  setting under the parent directory of \<open>pluginDir\<close>.\<close>

definition vaultBasePath_of :: "world \<Rightarrow> string \<Rightarrow> string" where
  "vaultBasePath_of w pluginDir = resolve (cwd w) (dirname pluginDir)"

definition absoluteAudioDir_of :: "world \<Rightarrow> settings \<Rightarrow> string \<Rightarrow> string" where
  "absoluteAudioDir_of w st pluginDir =
     (if isAbsolute (audioDir st) then audioDir st
      else path_join [vaultBasePath_of w pluginDir, audioDir st])"

text \<open>The inner \<open>try\<close> block that stores the archive copy: the error thrown, if any,
  and the world at that point.\<close>

definition save_mp3 ::
  "settings \<Rightarrow> string \<Rightarrow> string \<Rightarrow> string \<Rightarrow> world \<Rightarrow> failure option \<times> world" where
  "save_mp3 st pluginDir filename tempMp3Path w =
     (if vaultBasePath_of w pluginDir = [] then (Some VaultPathUnavailable, w)
      else
        let absoluteAudioDir = absoluteAudioDir_of w st pluginDir
        in case mkdir_recursive w absoluteAudioDir of
             Inl e \<Rightarrow> (Some e, w)
           | Inr w1 \<Rightarrow>
               let finalMp3Path = path_join [absoluteAudioDir, filename @ ''.mp3'']
               in if \<not> existsSync w1 tempMp3Path then (Some (SourceFileNotFound tempMp3Path), w1)
                  else (case copyFile w1 tempMp3Path finalMp3Path of
                          Inl e \<Rightarrow> (Some e, w1)
                        | Inr w2 \<Rightarrow>
                            if \<not> existsSync w2 finalMp3Path then (Some Mp3SaveFailed, w2)
                            else (None, notify (Mp3Saved finalMp3Path) w2)))"


text \<open>What one call of \<open>processAudioBlob\<close> meets: the bytes of the recording, the text
  of the time stamp in the file name, and the behaviour of the external processes.\<close>

record capture =
  audioBlob :: string
  timestamp :: string
  conversion_events :: "ffmpeg_event list"
  recognition :: recognizer_run






section \<open>A concrete installation and a concrete recording\<close>

text \<open>A processor for the home directory \<open>/Users/me\<close> with the scratch directory
  \<open>/tmp/obsidian-whisper\<close>; a world in which the recognizer and its interpreter are
  installed and the scratch directory and the vault \<open>/vault\<close> exist; the same world
  without the recognizer.\<close>

definition my_processor :: AudioProcessor where
  "my_processor = new_AudioProcessor ''/Users/me'' ''/tmp/obsidian-whisper''"

definition bare_world :: world where
  "bare_world =
     \<lparr>files = Map.empty,
      dirs = {''/'', ''/tmp'', ''/tmp/obsidian-whisper'', ''/vault''},
      locked = {}, cwd = ''/'', notices = [], errors = [], console = [], spawned = [], signalled = [],
      kill_throws = {}, next_handle = 0\<rparr>"

definition installed_world :: world where
  "installed_world =
     bare_world\<lparr>files :=
       [''/Users/me/Documents/obsidian/whisper-env/bin/mlx_whisper'' \<mapsto> ''#!'',
        ''/Users/me/Documents/obsidian/whisper-env/bin/python3'' \<mapsto> ''#!'']\<rparr>"

definition my_settings :: settings where
  "my_settings = \<lparr>language = ''en'', modelSize = ''small'', audioDir = ''04_assets/audio''\<rparr>"

text \<open>A recognizer run that exits with code 0 after writing its result file; the same
  run writing nothing; the same run closing before the probe answers; the same run
  during which the temporary mp3 file goes away, and during which the raw input file
  goes away.\<close>

definition good_run :: recognizer_run where
  "good_run =
     \<lparr>probed = Some 10, closes_before_probe = False,
      stdout_chunks = [''[00:01.500 --> 00:04.200]  hello world'' @ [CHR 0x0A]],
      stderr_chunks = [], exit_code = 0,
      written = [(''/tmp/obsidian-whisper/Recording 1_converted.txt'', '' hello world '' @ [CHR 0x0A])],
      removed = []\<rparr>"

definition silent_run :: recognizer_run where
  "silent_run = good_run\<lparr>written := []\<rparr>"

definition early_run :: recognizer_run where
  "early_run = good_run\<lparr>closes_before_probe := True\<rparr>"





text \<open>Two worlds with the same files, directories, refused removals, working directory
  and console.\<close>

definition same_fs :: "world \<Rightarrow> world \<Rightarrow> bool" where
  "same_fs w w' =
     (files w = files w' \<and> dirs w = dirs w' \<and> cwd w = cwd w' \<and> locked w = locked w'
      \<and> console w = console w')"

text \<open>The installed world once the recording \<open>Recording 1\<close> has been written to the
  scratch directory and converted.\<close>

definition converted_world :: world where
  "converted_world =
     bare_world\<lparr>files :=
       [''/Users/me/Documents/obsidian/whisper-env/bin/mlx_whisper'' \<mapsto> ''#!'',
        ''/Users/me/Documents/obsidian/whisper-env/bin/python3'' \<mapsto> ''#!'',
        ''/tmp/obsidian-whisper/Recording 1.webm'' \<mapsto> ''webm'',
        ''/tmp/obsidian-whisper/Recording 1.mp3'' \<mapsto> ''mp3'',
        ''/tmp/obsidian-whisper/Recording 1_converted.wav'' \<mapsto> ''wav'']\<rparr>"







section \<open>Properties of timestamp parsing and time display\<close>

lemma digit_roundtrip:
  "is_digit c \<Longrightarrow> digit_char (digit_value c) = c \<and> digit_value c < 10"
  by (auto simp: is_digit_def digit_char_def digit_value_def)

lemma digits_Some:
  "digits n s = Some (d, r) \<Longrightarrow> length d = n \<and> list_all is_digit d \<and> s = d @ r"
  by (auto simp: digits_def split: if_splits)

lemma lit_Some: "lit c s = Some r \<Longrightarrow> s = c # r"
  by (auto simp: lit_def split: list.splits if_splits)

lemma min_sec_ms_Some:
  assumes "min_sec_ms s = Some (m, sec, ms, r)"
  shows "length m = 2 \<and> list_all is_digit m \<and> length sec = 2 \<and> list_all is_digit sec
       \<and> length ms = 3 \<and> list_all is_digit ms \<and> s = m @ '':'' @ sec @ ''.'' @ ms @ r"
  using assms
  by (auto simp: min_sec_ms_def split: Option.bind_splits dest!: digits_Some lit_Some)

lemma opt_hour_stamp_Some:
  assumes "opt_hour_stamp s = Some (h, m, sec, ms, r)"
  shows "length m = 2 \<and> list_all is_digit m \<and> length sec = 2 \<and> list_all is_digit sec
       \<and> length ms = 3 \<and> list_all is_digit ms
       \<and> (case h of None \<Rightarrow> s = m @ '':'' @ sec @ ''.'' @ ms @ r
           | Some hh \<Rightarrow> length hh = 2 \<and> list_all is_digit hh \<and> s = hh @ '':'' @ m @ '':'' @ sec @ ''.'' @ ms @ r)"
  using assms
  by (auto simp: opt_hour_stamp_def with_hour_def without_hour_def
      split: option.splits Option.bind_splits dest!: digits_Some lit_Some min_sec_ms_Some)

lemma two_digits:
  assumes "length m = 2" "list_all is_digit m"
  shows "padStart0 2 (toString (parseInt m)) = m \<and> 0 \<le> parseInt m \<and> parseInt m < 100"
proof -
  from assms obtain a b where m: "m = [a, b]" and a: "is_digit a" and b: "is_digit b"
    by (cases m; cases "tl m") auto
  from digit_roundtrip[OF a] digit_roundtrip[OF b]
  have da: "digit_char (digit_value a) = a" "digit_value a < 10"
    and db: "digit_char (digit_value b) = b" "digit_value b < 10" by simp_all
  have v: "parseInt [a, b] = int (10 * digit_value a + digit_value b)"
    unfolding parseInt_def by simp
  have ts: "toString (parseInt [a, b]) = nat_toString (10 * digit_value a + digit_value b)"
    unfolding toString_def v by (simp only: nat_int of_nat_less_0_iff if_False)
  have d: "(10 * digit_value a + digit_value b) div 10 = digit_value a"
    "(10 * digit_value a + digit_value b) mod 10 = digit_value b" using db by simp_all
  have "padStart0 2 (nat_toString (10 * digit_value a + digit_value b)) = [a, b]"
  proof (cases "digit_value a = 0")
    case True
    then have "digit_char 0 = a" using da by simp
    then have "a = CHR ''0''" by (simp add: digit_char_def)
    then show ?thesis using True db by (simp add: nat_toString.simps padStart0_def)
  next
    case False
    then have "\<not> 10 * digit_value a + digit_value b < 10" by simp
    then show ?thesis using da db d
      by (subst nat_toString.simps) (simp add: nat_toString.simps[of "digit_value a"] padStart0_def)
  qed
  then have "padStart0 2 (toString (parseInt m)) = m"
    unfolding m ts .
  moreover have "0 \<le> parseInt m \<and> parseInt m < 100" unfolding m v using da db by simp
  ultimately show ?thesis by simp
qed

lemma three_digits:
  assumes "length m = 3" "list_all is_digit m"
  shows "0 \<le> parseInt m \<and> parseInt m < 1000"
proof -
  from assms obtain a b c where m: "m = [a, b, c]" and a: "is_digit a" and b: "is_digit b" and c: "is_digit c"
    by (cases m; cases "tl m"; cases "tl (tl m)") auto
  from digit_roundtrip[OF a] digit_roundtrip[OF b] digit_roundtrip[OF c]
  show ?thesis by (simp add: m parseInt_def)
qed

lemma floor_int_plus_frac_div:
  fixes f :: rat
  assumes "0 \<le> f" "f < 1" "0 < d"
  shows "\<lfloor>(of_int N + f) / of_int d\<rfloor> = N div d"
proof (rule floor_unique)
  have dpos: "(0::rat) < of_int d" using assms by simp
  have lo: "d * (N div d) \<le> N"
    using pos_mod_sign[OF assms(3), of N] mult_div_mod_eq[of d N] by linarith
  have hi: "N + 1 \<le> d * (N div d) + d"
    using pos_mod_bound[OF assms(3), of N] mult_div_mod_eq[of d N] by linarith
  from lo have "(of_int (d * (N div d)) :: rat) \<le> of_int N" by (simp only: of_int_le_iff)
  then have "of_int (N div d) * (of_int d :: rat) \<le> of_int N + f"
    using assms(1) by (simp add: mult.commute)
  then show "of_int (N div d) \<le> (of_int N + f) / of_int d"
    using dpos by (simp add: pos_le_divide_eq)
  from hi have "(of_int (N + 1) :: rat) \<le> of_int (d * (N div d) + d)" by (simp only: of_int_le_iff)
  then have "of_int N + f < (of_int (N div d) + 1) * (of_int d :: rat)"
    using assms(2) by (simp add: algebra_simps)
  then show "(of_int N + f) / of_int d < of_int (N div d) + 1"
    using dpos by (simp add: pos_divide_less_eq)
qed

lemma js_rem_int_plus_frac:
  fixes f :: rat
  assumes "0 \<le> f" "f < 1" "0 < d" "0 \<le> N"
  shows "js_rem (of_int N + f) (of_int d) = of_int (N mod d) + f"
proof -
  have nonneg: "(0::rat) \<le> (of_int N + f) / of_int d" using assms by simp
  have "js_rem (of_int N + f) (of_int d) = of_int N + f - of_int d * of_int (N div d)"
    unfolding js_rem_def using nonneg floor_int_plus_frac_div[OF assms(1-3), of N] by simp
  also have "\<dots> = of_int (N - d * (N div d)) + f" by simp
  also have "N - d * (N div d) = N mod d" by (simp add: minus_mult_div_eq_mod)
  finally show ?thesis .
qed

lemma floor_int_plus_frac:
  fixes f :: rat
  assumes "0 \<le> f" "f < 1"
  shows "\<lfloor>of_int N + f\<rfloor> = N"
  using assms by (simp add: floor_unique)


lemma formatTime_parts:
  fixes f :: rat
  assumes f: "0 \<le> f" "f < 1"
    and H: "0 \<le> H" and M: "0 \<le> M" "M < 60" and S: "0 \<le> S" "S < 60"
  shows "formatTime (of_int (H * 3600 + M * 60 + S) + f)
          = (if H > 0 then toString H @ '':'' @ padStart0 2 (toString M) @ '':'' @ padStart0 2 (toString S)
             else toString M @ '':'' @ padStart0 2 (toString S))"
proof -
  let ?N = "H * 3600 + M * 60 + S"
  have N: "0 \<le> ?N" using H M S by simp
  have small: "0 \<le> M * 60 + S" "M * 60 + S < 3600" using M S by simp_all
  have e1: "?N = 3600 * H + (M * 60 + S)" by simp
  have e2: "?N = 60 * (H * 60 + M) + S" by simp
  have i1: "?N div 3600 = H"
    unfolding e1 using small by (simp only: div_mult_self4 div_pos_pos_trivial)
  have i2: "?N mod 3600 = M * 60 + S"
    unfolding e1 using small by (simp only: mod_mult_self4 mod_pos_pos_trivial)
  have i3: "(M * 60 + S) div 60 = M"
    using S div_mult_self4[of 60 M S] by (simp add: div_pos_pos_trivial mult.commute)
  have i4: "?N mod 60 = S"
    unfolding e2 using S by (simp only: mod_mult_self4 mod_pos_pos_trivial)
  have h: "\<lfloor>(of_int ?N + f) / 3600\<rfloor> = H"
    using floor_int_plus_frac_div[OF f, of 3600 ?N] unfolding i1 by simp
  have r1: "js_rem (of_int ?N + f) 3600 = of_int (M * 60 + S) + f"
    using js_rem_int_plus_frac[OF f _ N, of 3600] unfolding i2 by simp
  have m: "\<lfloor>js_rem (of_int ?N + f) 3600 / 60\<rfloor> = M"
    unfolding r1 using floor_int_plus_frac_div[OF f, of 60 "M * 60 + S"] unfolding i3 by simp
  have r2: "js_rem (of_int ?N + f) 60 = of_int S + f"
    using js_rem_int_plus_frac[OF f _ N, of 60] unfolding i4 by simp
  have s: "\<lfloor>js_rem (of_int ?N + f) 60\<rfloor> = S"
    unfolding r2 by (rule floor_int_plus_frac[OF f])
  show ?thesis
    unfolding formatTime_def Let_def h m s ..
qed

lemma digits_append:
  "digit_field n d \<Longrightarrow> digits n (d @ r) = Some (d, r)"
  by (simp add: digits_def digit_field_def)

lemma lit_Cons: "lit c (c # r) = Some r"
  by (simp add: lit_def)

lemma min_sec_ms_text:
  assumes "digit_field 2 m" "digit_field 2 s" "digit_field 3 ms"
  shows "min_sec_ms (m @ '':'' @ s @ ''.'' @ ms @ r) = Some (m, s, ms, r)"
  using assms by (simp add: min_sec_ms_def digits_append lit_Cons)

lemma colon_not_digit: "\<not> is_digit CHR '':''" "\<not> is_digit CHR ''.''"
  by (simp_all add: is_digit_def)

lemma min_sec_ms_short:
  assumes "digit_field 2 s"
  shows "min_sec_ms (s @ ''.'' @ r) = None"
  using assms by (simp add: min_sec_ms_def digits_append lit_def)

lemma with_hour_text:
  assumes "digit_field 2 hh" "digit_field 2 m" "digit_field 2 s" "digit_field 3 ms"
  shows "with_hour (hh @ '':'' @ m @ '':'' @ s @ ''.'' @ ms) = Some (Some hh, m, s, ms, [])"
  using assms min_sec_ms_text[of m s ms "[]"]
  by (simp add: with_hour_def digits_append lit_Cons)

lemma with_hour_none:
  assumes "digit_field 2 m" "digit_field 2 s"
  shows "with_hour (m @ '':'' @ s @ ''.'' @ ms) = None"
  using assms min_sec_ms_short[of s ms]
  by (simp add: with_hour_def digits_append lit_Cons)

lemma timestamp_match_text:
  assumes "hour_field h" "digit_field 2 m" "digit_field 2 s" "digit_field 3 ms"
  shows "timestamp_match (stamp_text h m s ms) = Some (h, m, s, ms)"
proof (cases h)
  case None
  have "with_hour (m @ '':'' @ s @ ''.'' @ ms) = None" by (rule with_hour_none[OF assms(2,3)])
  moreover have "without_hour (m @ '':'' @ s @ ''.'' @ ms) = Some (None, m, s, ms, [])"
    using min_sec_ms_text[OF assms(2-4), of "[]"] by (simp add: without_hour_def)
  ultimately show ?thesis using None
    by (simp add: timestamp_match_def opt_hour_stamp_def stamp_text_def)
next
  case (Some hh)
  then have "digit_field 2 hh" using assms(1) by (simp add: hour_field_def)
  from with_hour_text[OF this assms(2-4)] show ?thesis using Some
    by (simp add: timestamp_match_def opt_hour_stamp_def stamp_text_def)
qed

lemma parseTimestamp_text:
  assumes "hour_field h" "digit_field 2 m" "digit_field 2 s" "digit_field 3 ms"
  shows "parseTimestamp (stamp_text h m s ms)
          = of_int (hours_of h * 3600 + parseInt m * 60 + parseInt s) + of_int (parseInt ms) / 1000"
  using timestamp_match_text[OF assms]
  by (simp add: parseTimestamp_def hours_of_def split: option.splits)

text \<open>
  Claim C4, as amended. For every string of the form \<open>[HH:]MM:SS.mmm\<close>, that is, two
  digits of minutes, two of seconds and three of milliseconds, after two digits of hours
  or none, \<open>parseTimestamp\<close> returns exactly
  hours * 3600 + minutes * 60 + seconds + millis / 1000, the numbers being those the
  digits of the fields denote. When moreover the minutes and the seconds are below 60,
  \<open>formatTime\<close> of that value is \<open>H:MM:SS\<close> when the hour is positive and \<open>M:SS\<close>
  otherwise, where \<open>MM\<close> and \<open>SS\<close> are the two-digit fields of the string and the
  leading field (\<open>H\<close>, or \<open>M\<close> when there is no positive hour) is printed without a
  leading zero.
\<close>

theorem parse_then_format:
  assumes "hour_field h" and "digit_field 2 m" and "digit_field 2 s" and "digit_field 3 ms"
  shows "parseTimestamp (stamp_text h m s ms)
           = of_int (hours_of h * 3600 + parseInt m * 60 + parseInt s) + of_int (parseInt ms) / 1000
       \<and> (parseInt m < 60 \<and> parseInt s < 60 \<longrightarrow>
            formatTime (parseTimestamp (stamp_text h m s ms))
              = (if hours_of h > 0 then toString (hours_of h) @ '':'' @ m @ '':'' @ s
                 else toString (parseInt m) @ '':'' @ s))"
proof (intro conjI impI)
  show v: "parseTimestamp (stamp_text h m s ms)
           = of_int (hours_of h * 3600 + parseInt m * 60 + parseInt s) + of_int (parseInt ms) / 1000"
    by (rule parseTimestamp_text[OF assms])
  assume lt: "parseInt m < 60 \<and> parseInt s < 60"
  from assms have dm: "padStart0 2 (toString (parseInt m)) = m" "0 \<le> parseInt m"
    and ds: "padStart0 2 (toString (parseInt s)) = s" "0 \<le> parseInt s"
    and dms: "0 \<le> parseInt ms" "parseInt ms < 1000"
    using two_digits[of m] two_digits[of s] three_digits[of ms] by (simp_all add: digit_field_def)
  have dh: "0 \<le> hours_of h"
  proof (cases h)
    case None then show ?thesis by (simp add: hours_of_def)
  next
    case (Some hh)
    with assms(1) have "length hh = 2 \<and> list_all is_digit hh"
      by (simp add: hour_field_def digit_field_def)
    then show ?thesis using two_digits[of hh] Some by (simp add: hours_of_def)
  qed
  have f: "(0::rat) \<le> of_int (parseInt ms) / 1000" "of_int (parseInt ms) / 1000 < (1::rat)"
    using dms by simp_all
  from lt have lm: "parseInt m < 60" and ls: "parseInt s < 60" by simp_all
  have ft: "formatTime (of_int (hours_of h * 3600 + parseInt m * 60 + parseInt s)
                          + of_int (parseInt ms) / 1000)
             = (if hours_of h > 0 then toString (hours_of h) @ '':'' @ m @ '':'' @ s
                else toString (parseInt m) @ '':'' @ s)"
    using formatTime_parts[OF f dh dm(2) lm ds(2) ls] unfolding dm(1) ds(1) .
  show "formatTime (parseTimestamp (stamp_text h m s ms))
              = (if hours_of h > 0 then toString (hours_of h) @ '':'' @ m @ '':'' @ s
                 else toString (parseInt m) @ '':'' @ s)"
    unfolding v by (rule ft)
qed

theorem parse_then_format_witness:
  "hour_field (Some ''01'') \<and> hour_field None
   \<and> digit_field 2 ''02'' \<and> digit_field 2 ''03'' \<and> digit_field 3 ''456''
   \<and> parseInt ''02'' < 60 \<and> parseInt ''03'' < 60
   \<and> stamp_text (Some ''01'') ''02'' ''03'' ''456'' = ''01:02:03.456''
   \<and> stamp_text None ''02'' ''03'' ''456'' = ''02:03.456''
   \<and> parseTimestamp (stamp_text (Some ''01'') ''02'' ''03'' ''456'')
        = of_int (hours_of (Some ''01'') * 3600 + parseInt ''02'' * 60 + parseInt ''03'')
            + of_int (parseInt ''456'') / 1000
   \<and> formatTime (parseTimestamp (stamp_text (Some ''01'') ''02'' ''03'' ''456''))
        = (if hours_of (Some ''01'') > 0
           then toString (hours_of (Some ''01'')) @ '':'' @ ''02'' @ '':'' @ ''03''
           else toString (parseInt ''02'') @ '':'' @ ''03'')
   \<and> parseTimestamp (stamp_text None ''02'' ''03'' ''456'')
        = of_int (hours_of None * 3600 + parseInt ''02'' * 60 + parseInt ''03'')
            + of_int (parseInt ''456'') / 1000
   \<and> formatTime (parseTimestamp (stamp_text None ''02'' ''03'' ''456''))
        = (if hours_of None > 0
           then toString (hours_of None) @ '':'' @ ''02'' @ '':'' @ ''03''
           else toString (parseInt ''02'') @ '':'' @ ''03'')
   \<and> parseTimestamp ''01:02:03.456'' = 3723456 / 1000
   \<and> formatTime (parseTimestamp ''01:02:03.456'') = ''1:02:03''
   \<and> parseTimestamp ''02:03.456'' = 123456 / 1000
   \<and> formatTime (parseTimestamp ''02:03.456'') = ''2:03''"
proof -
  have h1: "hour_field (Some ''01'')" by code_simp
  have h0: "hour_field None" by code_simp
  have m: "digit_field 2 ''02''" by code_simp
  have s: "digit_field 2 ''03''" by code_simp
  have ms: "digit_field 3 ''456''" by code_simp
  have lm: "parseInt ''02'' < 60" by code_simp
  have ls: "parseInt ''03'' < 60" by code_simp
  have t1: "stamp_text (Some ''01'') ''02'' ''03'' ''456'' = ''01:02:03.456''" by code_simp
  have t0: "stamp_text None ''02'' ''03'' ''456'' = ''02:03.456''" by code_simp
  note a = parse_then_format[OF h1 m s ms]
  note b = parse_then_format[OF h0 m s ms]
  note a1 = conjunct1[OF a]
  note a2 = mp[OF conjunct2[OF a] conjI[OF lm ls]]
  note b1 = conjunct1[OF b]
  note b2 = mp[OF conjunct2[OF b] conjI[OF lm ls]]
  have e1: "parseTimestamp ''01:02:03.456'' = 3723456 / 1000" by code_simp
  have e2: "formatTime (parseTimestamp ''01:02:03.456'') = ''1:02:03''" by code_simp
  have e3: "parseTimestamp ''02:03.456'' = 123456 / 1000" by code_simp
  have e4: "formatTime (parseTimestamp ''02:03.456'') = ''2:03''" by code_simp
  show ?thesis
    by (rule conjI[OF h1 conjI[OF h0 conjI[OF m conjI[OF s conjI[OF ms conjI[OF lm conjI[OF ls
          conjI[OF t1 conjI[OF t0 conjI[OF a1 conjI[OF a2 conjI[OF b1 conjI[OF b2
          conjI[OF e1 conjI[OF e2 conjI[OF e3 e4]]]]]]]]]]]]]]]])
qed

text \<open>
  Claim C4, as stated, fails: the display of \<open>00:04.200\<close> is \<open>0:04\<close>, not the
  \<open>00:04\<close> of the input, and a string that the expression accepts with 75 seconds is
  displayed as \<open>1:15\<close>.
\<close>

theorem format_is_not_the_input_form:
  "timestamp_match ''00:04.200'' = Some (None, ''00'', ''04'', ''200'')
   \<and> formatTime (parseTimestamp ''00:04.200'') = ''0:04''
   \<and> formatTime (parseTimestamp ''00:04.200'') \<noteq> ''00:04''
   \<and> timestamp_match ''00:75.000'' = Some (None, ''00'', ''75'', ''000'')
   \<and> formatTime (parseTimestamp ''00:75.000'') = ''1:15''"
  by code_simp


section \<open>Properties of the standard-output handler\<close>

lemma progress_inv_start: "progress_inv stdout_start"
  by (simp add: progress_inv_def stdout_start_def)

lemma sorted_last_bound:
  "sorted_wrt (<) (xs :: rat list) \<Longrightarrow> xs \<noteq> [] \<Longrightarrow> x \<in> set xs \<Longrightarrow> x \<le> last xs"
  by (induction xs) (auto simp: less_imp_le)

lemma progress_inv_apply:
  assumes "progress_inv st"
  shows "progress_inv (apply_timestamp d st t)"
proof (cases "truthy d \<and> lastProgressUpdate st < t")
  case False
  then have "apply_timestamp d st t = st\<lparr>notified := notified st @ [Transcribing]\<rparr>"
    by (simp add: apply_timestamp_def)
  with assms show ?thesis by (simp add: progress_inv_def)
next
  case True
  let ?xs = "map snd (progress_log st)"
  from assms have srt: "sorted_wrt (<) ?xs" and pos: "list_all (\<lambda>x. 0 < x) ?xs"
    and lst: "lastProgressUpdate st = (if progress_log st = [] then 0 else snd (last (progress_log st)))"
    by (simp_all add: progress_inv_def)
  have below: "x < t" if "x \<in> set ?xs" for x
  proof -
    from that have ne: "?xs \<noteq> []" by auto
    then have "last ?xs = lastProgressUpdate st" using lst by (simp add: last_map)
    moreover have "x \<le> last ?xs" using sorted_last_bound[OF srt ne that] .
    ultimately show ?thesis using True by simp
  qed
  have nonneg: "0 \<le> lastProgressUpdate st"
  proof (cases "progress_log st = []")
    case True then show ?thesis using lst by simp
  next
    case False
    then have "snd (last (progress_log st)) \<in> set ?xs" by (simp add: last_in_set)
    with pos have "0 < snd (last (progress_log st))" by (auto simp only: list_all_iff)
    with False lst show ?thesis by simp
  qed
  have eq: "progress_log (apply_timestamp d st t) = progress_log st @ [(percent_of t (the d), t)]"
    "lastProgressUpdate (apply_timestamp d st t) = t"
    using True by (simp_all add: apply_timestamp_def)
  show ?thesis
    unfolding progress_inv_def eq using srt pos below nonneg True
    by (auto simp: sorted_wrt_append list_all_iff)
qed

lemma progress_inv_line: "progress_inv st \<Longrightarrow> progress_inv (handle_line d st line)"
proof -
  assume a: "progress_inv st"
  have b: "progress_inv (st\<lparr>transcription := transcription st @ line @ [CHR 0x0A]\<rparr>)"
    using a by (simp add: progress_inv_def)
  show ?thesis
    unfolding handle_line_def Let_def
    by (cases "range_match line") (simp_all add: b progress_inv_apply)
qed

lemma progress_inv_lines: "progress_inv st \<Longrightarrow> progress_inv (foldl (handle_line d) st ls)"
  by (induction ls arbitrary: st) (simp_all add: progress_inv_line)

lemma progress_inv_data: "progress_inv st \<Longrightarrow> progress_inv (on_stdout_data d st chunk)"
proof -
  assume a: "progress_inv st"
  have "progress_inv (st\<lparr>buffer := b\<rparr>)" for b using a by (simp add: progress_inv_def)
  then show ?thesis
    unfolding on_stdout_data_def Let_def by (rule progress_inv_lines)
qed

lemma progress_inv_chunks: "progress_inv st \<Longrightarrow> progress_inv (foldl (on_stdout_data d) st chunks)"
  by (induction chunks arbitrary: st) (simp_all add: progress_inv_data)

lemma lastProgressUpdate_nonneg: "progress_inv st \<Longrightarrow> 0 \<le> lastProgressUpdate st"
proof -
  assume a: "progress_inv st"
  show ?thesis
  proof (cases "progress_log st = []")
    case True then show ?thesis using a by (simp add: progress_inv_def)
  next
    case False
    then have "snd (last (progress_log st)) \<in> set (map snd (progress_log st))" by (simp add: last_in_set)
    with a have "0 < snd (last (progress_log st))" by (auto simp: progress_inv_def list_all_iff simp del: set_map)
    with False a show ?thesis by (simp add: progress_inv_def)
  qed
qed


text \<open>
  Claim C5. Whatever chunks the recognizer writes to its standard output, the elapsed
  values that the handler applies as progress (the \<open>currentTime\<close> of its \<open>[Progress]\<close>
  records) increase strictly, so progress never moves backward; they are all positive,
  and \<open>lastProgressUpdate\<close> is always the last applied value, which is what a newly
  parsed value is compared with.
\<close>

theorem progress_strictly_increasing:
  "sorted_wrt (<) (map snd (progress_log (foldl (on_stdout_data d) stdout_start chunks)))
   \<and> list_all (\<lambda>x. 0 < x) (map snd (progress_log (foldl (on_stdout_data d) stdout_start chunks)))
   \<and> lastProgressUpdate (foldl (on_stdout_data d) stdout_start chunks)
       = (if progress_log (foldl (on_stdout_data d) stdout_start chunks) = [] then 0
          else snd (last (progress_log (foldl (on_stdout_data d) stdout_start chunks))))"
  using progress_inv_chunks[OF progress_inv_start, of d chunks]
  by (simp add: progress_inv_def)


text \<open>
  Claim C10. \<open>parseTimestamp\<close> returns 0, and throws nothing, on every string that
  does not match \<open>[HH:]MM:SS.mmm\<close>; and in every state the handler can be in, the
  value parsed from such a string is not applied: the state is unchanged but for the
  plain "transcribing" message, so no percent update is produced.
\<close>

theorem parseTimestamp_total:
  assumes "timestamp_match s = None"
  shows "parseTimestamp s = 0
     \<and> apply_timestamp d (foldl (on_stdout_data d) stdout_start chunks) (parseTimestamp s)
         = (foldl (on_stdout_data d) stdout_start chunks)
             \<lparr>notified := notified (foldl (on_stdout_data d) stdout_start chunks) @ [Transcribing]\<rparr>"
proof -
  have z: "parseTimestamp s = 0" using assms by (simp add: parseTimestamp_def)
  have "0 \<le> lastProgressUpdate (foldl (on_stdout_data d) stdout_start chunks)"
    by (rule lastProgressUpdate_nonneg) (rule progress_inv_chunks[OF progress_inv_start])
  then show ?thesis using z by (simp add: apply_timestamp_def)
qed

theorem parseTimestamp_total_witness:
  "timestamp_match ''0:04.2'' = None \<and> parseTimestamp ''0:04.2'' = 0
     \<and> apply_timestamp (Some 10) (foldl (on_stdout_data (Some 10)) stdout_start [''[00:00:01.000 --> 00:00:02.000] a'' @ [CHR 0x0A]]) (parseTimestamp ''0:04.2'')
         = (foldl (on_stdout_data (Some 10)) stdout_start [''[00:00:01.000 --> 00:00:02.000] a'' @ [CHR 0x0A]])
             \<lparr>notified := notified (foldl (on_stdout_data (Some 10)) stdout_start [''[00:00:01.000 --> 00:00:02.000] a'' @ [CHR 0x0A]]) @ [Transcribing]\<rparr>"
proof -
  have h: "timestamp_match ''0:04.2'' = None" by code_simp
  show ?thesis by (rule conjI[OF h parseTimestamp_total[OF h]])
qed


text \<open>The percent of a progress update is \<open>round(min(elapsed / total, 1) * 100)\<close> and
  lies between 0 and 100, for a positive total duration and an elapsed time that is
  not negative.\<close>

lemma Math_round_mono: "x \<le> y \<Longrightarrow> Math_round x \<le> Math_round y"
  by (simp add: Math_round_def floor_mono)

lemma Math_round_100: "Math_round 100 = 100"
  by code_simp

lemma Math_round_0: "Math_round 0 = 0"
  by code_simp

lemma percent_of_clamped:
  assumes "0 < t" and "0 \<le> e"
  shows "percent_of e t = Math_round (min (e / t) 1 * 100)
       \<and> 0 \<le> percent_of e t \<and> percent_of e t \<le> 100"
proof -
  have nonneg: "0 \<le> e / t * 100" using assms by simp
  have lo: "0 \<le> Math_round (e / t * 100)"
    using Math_round_mono[OF nonneg] by (simp add: Math_round_0)
  show ?thesis
  proof (cases "e / t \<le> 1")
    case True
    then have "e / t * 100 \<le> 100" using mult_right_mono[of "e / t" 1 100] by simp
    from Math_round_mono[OF this] have "Math_round (e / t * 100) \<le> 100"
      by (simp add: Math_round_100)
    then show ?thesis using True lo by (simp add: percent_of_def min_def)
  next
    case False
    then have "100 \<le> e / t * 100" using mult_right_mono[of 1 "e / t" 100] by simp
    from Math_round_mono[OF this] have "100 \<le> Math_round (e / t * 100)"
      by (simp add: Math_round_100)
    then show ?thesis using False by (simp add: percent_of_def min_def Math_round_100)
  qed
qed

text \<open>
  Claim C6, at the input of its scenario. The line
  \<open>[00:01.500 --> 00:04.200]  hello world\<close> with a total duration of 10 seconds and
  nothing applied before: the handler parses groups 2 and 3 of the match, the start
  \<open>00:01.500\<close>, since the end has no hour group, and reports 15 percent at an elapsed
  time of 1.5 seconds. The line is appended to the transcript.
\<close>

theorem scenario_percent_from_start_time:
  "progress_log (on_stdout_data (Some 10) stdout_start
       (''[00:01.500 --> 00:04.200]  hello world'' @ [CHR 0x0A])) = [(15, 3 / 2)]
   \<and> notified (on_stdout_data (Some 10) stdout_start
       (''[00:01.500 --> 00:04.200]  hello world'' @ [CHR 0x0A]))
       = [ProgressText ''0:01 / 0:10 (15%)'']
   \<and> transcription (on_stdout_data (Some 10) stdout_start
       (''[00:01.500 --> 00:04.200]  hello world'' @ [CHR 0x0A]))
       = ''[00:01.500 --> 00:04.200]  hello world'' @ [CHR 0x0A]"
  by code_simp

section \<open>Properties of the runner, the pipeline and cancellation\<close>

lemma same_fs_refl: "same_fs w w"
  by (simp add: same_fs_def)

lemma same_fs_put: "same_fs w w' \<Longrightarrow> same_fs (put_file w pc) (put_file w' pc)"
  by (simp add: same_fs_def put_file_def key_def)

lemma same_fs_drop: "same_fs w w' \<Longrightarrow> same_fs (drop_file w p) (drop_file w' p)"
  by (simp add: same_fs_def drop_file_def key_def)

lemma same_fs_puts: "same_fs w w' \<Longrightarrow> same_fs (foldl put_file w ps) (foldl put_file w' ps)"
  by (induction ps arbitrary: w w') (simp_all add: same_fs_put)

lemma same_fs_drops: "same_fs w w' \<Longrightarrow> same_fs (foldl drop_file w ps) (foldl drop_file w' ps)"
  by (induction ps arbitrary: w w') (simp_all add: same_fs_drop)

lemma same_fs_environment:
  "same_fs w w' \<Longrightarrow> same_fs (environment_after run w) (environment_after run w')"
  by (simp add: environment_after_def same_fs_puts same_fs_drops)

lemma same_fs_stderr: "same_fs (foldl on_stderr_data w cs) w"
proof (induction cs arbitrary: w)
  case Nil
  show ?case by (simp add: same_fs_def)
next
  case (Cons c cs)
  have "same_fs (on_stderr_data w c) w" by (simp add: on_stderr_data_def same_fs_def)
  with Cons[of "on_stderr_data w c"] show ?case by (simp add: same_fs_def)
qed

lemma same_fs_listen: "same_fs (snd (listen run w)) w"
proof -
  let ?out = "foldl (on_stdout_data (probed run)) stdout_start (stdout_chunks run)"
  have "same_fs (foldl on_stderr_data (w\<lparr>notices := notices w @ notified ?out\<rparr>) (stderr_chunks run))
          (w\<lparr>notices := notices w @ notified ?out\<rparr>)" by (rule same_fs_stderr)
  then show ?thesis by (simp add: listen_def Let_def same_fs_def)
qed

lemma same_fs_spawn: "same_fs (snd (spawn_recognizer audioPath st (ap, w))) w"
  by (simp add: spawn_recognizer_def same_fs_def)

lemma unchanged_environment:
  "dirs (environment_after run w) = dirs w \<and> cwd (environment_after run w) = cwd w
   \<and> locked (environment_after run w) = locked w \<and> console (environment_after run w) = console w"
proof -
  have p: "dirs (foldl put_file v ps) = dirs v \<and> cwd (foldl put_file v ps) = cwd v
      \<and> locked (foldl put_file v ps) = locked v \<and> console (foldl put_file v ps) = console v"
    for v ps by (induction ps arbitrary: v) (simp_all add: put_file_def)
  have d: "dirs (foldl drop_file v ps) = dirs v \<and> cwd (foldl drop_file v ps) = cwd v
      \<and> locked (foldl drop_file v ps) = locked v \<and> console (foldl drop_file v ps) = console v"
    for v ps by (induction ps arbitrary: v) (simp_all add: drop_file_def)
  show ?thesis by (simp add: environment_after_def p d)
qed

lemma takeWhile_stop:
  "(\<And>x. x \<in> set xs \<Longrightarrow> P x) \<Longrightarrow> \<not> P y \<Longrightarrow> takeWhile P (xs @ y # ys) = xs"
  by (induction xs) auto

text \<open>The result file is named after the base name of the input.\<close>

lemma last_segment_name:
  assumes "name \<noteq> []" "CHR ''/'' \<notin> set name"
  shows "last_segment (dir @ ''/'' @ name) = name"
proof -
  have r: "rev (dir @ ''/'' @ name) = rev name @ CHR ''/'' # rev dir" by simp
  from assms have h: "hd (rev name) \<noteq> CHR ''/''"
    by (metis hd_in_set rev_is_Nil_conv set_rev)
  from assms(1) have d: "dropWhile (\<lambda>c. c = CHR ''/'') (rev name @ CHR ''/'' # rev dir)
                   = rev name @ CHR ''/'' # rev dir"
    using h by (cases "rev name") auto
  have t: "takeWhile (\<lambda>c. c \<noteq> CHR ''/'') (rev name @ CHR ''/'' # rev dir) = rev name"
    using assms(2) by (intro takeWhile_stop) auto
  show ?thesis unfolding last_segment_def r d t by simp
qed

lemma extname_name:
  assumes "stem \<noteq> []" "stem \<noteq> ''.''" "CHR ''/'' \<notin> set stem" "CHR ''/'' \<notin> set ext"
    "CHR ''.'' \<notin> set ext"
  shows "extname (dir @ ''/'' @ stem @ ''.'' @ ext) = CHR ''.'' # ext"
proof -
  let ?seg = "stem @ ''.'' @ ext"
  have seg: "last_segment (dir @ ''/'' @ ?seg) = ?seg"
    using assms by (intro last_segment_name) auto
  have "takeWhile (\<lambda>c. c \<noteq> CHR ''.'') (rev ext @ CHR ''.'' # rev stem) = rev ext"
    using assms(5) by (intro takeWhile_stop) auto
  then have after: "rev (takeWhile (\<lambda>c. c \<noteq> CHR ''.'') (rev ?seg)) = ext" by simp
  have ne: "?seg \<noteq> ''..''"
  proof
    assume a: "?seg = ''..''"
    then have "length stem + 1 + length ext = 2" by (metis length_append length_Cons list.size(3) One_nat_def Suc_eq_plus1 add.assoc add_Suc_right numeral_2_eq_2 append_Cons append_Nil add.commute)
    with assms(1) have "length stem = 1 \<and> ext = []" by (cases stem; cases ext) auto
    with a have "stem = ''.''" by (cases stem) auto
    with assms(2) show False by simp
  qed
  show ?thesis
    unfolding extname_def seg Let_def after using ne assms(1) by simp
qed

lemma basename_name:
  assumes "stem \<noteq> []" "stem \<noteq> ''.''" "CHR ''/'' \<notin> set stem" "CHR ''/'' \<notin> set ext"
    "CHR ''.'' \<notin> set ext"
  shows "basename (dir @ ''/'' @ stem @ ''.'' @ ext) (extname (dir @ ''/'' @ stem @ ''.'' @ ext)) = stem"
proof -
  let ?seg = "stem @ ''.'' @ ext"
  have seg: "last_segment (dir @ ''/'' @ ?seg) = ?seg"
    using assms by (intro last_segment_name) auto
  have neq: "CHR ''.'' # ext \<noteq> dir @ ''/'' @ stem @ ''.'' @ ext"
  proof
    assume "CHR ''.'' # ext = dir @ ''/'' @ stem @ ''.'' @ ext"
    then have "length (CHR ''.'' # ext) = length (dir @ ''/'' @ stem @ ''.'' @ ext)" by simp
    then show False using assms(1) by simp
  qed
  show ?thesis
    unfolding extname_name[OF assms] basename_def seg Let_def using neq assms(1) by simp
qed

lemma outputPath_name:
  assumes "stem \<noteq> []" "stem \<noteq> ''.''" "CHR ''/'' \<notin> set stem" "CHR ''/'' \<notin> set ext"
    "CHR ''.'' \<notin> set ext"
  shows "outputPath_of ap (dir @ ''/'' @ stem @ ''.'' @ ext) = path_join [tempDir ap, stem @ ''.txt'']"
  unfolding outputPath_of_def basename_name[OF assms] ..


text \<open>
  Claim C7. The recognizer and its interpreter are installed, the input is
  \<open>dir/stem.ext\<close> and the process exits with code 0. When the process closes after the
  probe has answered, \<open>runTranscription\<close> resolves with the trimmed contents of the file
  \<open>stem.txt\<close> of the scratch directory as it is when the process closes, whatever was
  accumulated from standard output; when nothing is at that path it fails with the
  missing-result error (with a read error when a directory is there); the handle is
  cleared. When the process has closed before the probe answers, the \<open>close\<close> handler is
  attached too late: the promise never settles although the process exited with code 0,
  and the handle stays in \<open>currentChildProcess\<close>.
\<close>

theorem exit_zero_settles_only_when_heard:
  assumes "existsSync w (mlxWhisperPath ap)"
    and "existsSync w (path_join [venvPath ap, ''bin'', ''python3''])"
    and "exit_code run = 0"
    and "stem \<noteq> []" and "stem \<noteq> ''.''" and "CHR ''/'' \<notin> set stem"
    and "CHR ''/'' \<notin> set ext" and "CHR ''.'' \<notin> set ext"
  shows "fst (runTranscription run (dir @ ''/'' @ stem @ ''.'' @ ext) st (ap, w))
         = (if closes_before_probe run then Pending
            else (case files (environment_after run w)
                         (key w (path_join [tempDir ap, stem @ ''.txt''])) of
                    Some c \<Rightarrow> Resolved (trim c)
                  | None \<Rightarrow>
                      if key w (path_join [tempDir ap, stem @ ''.txt'']) \<in> dirs w
                      then Rejected (ResultReadFailed
                             (IoError ''read'' (path_join [tempDir ap, stem @ ''.txt''])))
                      else Rejected ResultFileNotFound))
       \<and> currentChildProcess (fst (snd (runTranscription run (dir @ ''/'' @ stem @ ''.'' @ ext) st (ap, w))))
         = (if closes_before_probe run then Some (next_handle w) else None)"
proof -
  let ?audio = "dir @ ''/'' @ stem @ ''.'' @ ext"
  let ?out = "path_join [tempDir ap, stem @ ''.txt'']"
  have name: "outputPath_of ap ?audio = ?out" by (rule outputPath_name[OF assms(4-8)])
  obtain ap1 w1 where sp: "spawn_recognizer ?audio st (ap, w) = (ap1, w1)"
    by (cases "spawn_recognizer ?audio st (ap, w)") auto
  have ap1: "currentChildProcess ap1 = Some (next_handle w)"
    using sp by (auto simp: spawn_recognizer_def)
  have w1: "same_fs w1 w" using same_fs_spawn[of ?audio st ap w] sp by simp
  show ?thesis
  proof (cases "closes_before_probe run")
    case True
    then show ?thesis using assms(1,2) sp ap1 by (simp add: runTranscription_def Let_def)
  next
    case False
    obtain out w3 where li: "listen run w1 = (out, w3)" by (cases "listen run w1") auto
    have "same_fs w3 w1" using same_fs_listen[of run w1] li by simp
    with w1 have "same_fs w3 w" by (simp add: same_fs_def)
    from same_fs_environment[OF this, of run] unchanged_environment[of run w]
    have fs: "files (environment_after run w3) = files (environment_after run w)"
      "dirs (environment_after run w3) = dirs w" "cwd (environment_after run w3) = cwd w"
      by (simp_all add: same_fs_def)
    have k: "key (environment_after run w3) p = key w p" for p by (simp add: key_def fs)
    obtain r w5 where oc0: "on_close (outputPath_of ap ?audio) (transcription out) 0
                               (environment_after run w3) = (r, w5)"
      by (cases "on_close (outputPath_of ap ?audio) (transcription out) 0
                   (environment_after run w3)") auto
    note oc = oc0[unfolded name]
    have r: "r = (case files (environment_after run w) (key w ?out) of
                    Some c \<Rightarrow> Resolved (trim c)
                  | None \<Rightarrow>
                      if key w ?out \<in> dirs w
                      then Rejected (ResultReadFailed (IoError ''read'' ?out))
                      else Rejected ResultFileNotFound)"
      using oc by (auto simp: on_close_def existsSync_def readFile_def k fs Let_def
          split: option.splits)
    have "runTranscription run ?audio st (ap, w) = (r, ap1\<lparr>currentChildProcess := None\<rparr>, w5)"
      using assms(1-3) sp False li oc0 by (simp add: runTranscription_def Let_def)
    then show ?thesis using False r by simp
  qed
qed


theorem exit_zero_settles_only_when_heard_witness:
  "existsSync installed_world (mlxWhisperPath my_processor)
   \<and> existsSync installed_world (path_join [venvPath my_processor, ''bin'', ''python3''])
   \<and> exit_code good_run = 0 \<and> exit_code silent_run = 0 \<and> exit_code early_run = 0
   \<and> closes_before_probe early_run
   \<and> ''/tmp/obsidian-whisper'' @ ''/'' @ ''Recording 1_converted'' @ ''.'' @ ''wav''
        = ''/tmp/obsidian-whisper/Recording 1_converted.wav''
   \<and> path_join [tempDir my_processor, ''Recording 1_converted'' @ ''.txt'']
        = ''/tmp/obsidian-whisper/Recording 1_converted.txt''
   \<and> fst (runTranscription good_run
            (''/tmp/obsidian-whisper'' @ ''/'' @ ''Recording 1_converted'' @ ''.'' @ ''wav'')
            my_settings (my_processor, installed_world)) = Resolved ''hello world''
   \<and> fst (runTranscription silent_run
            (''/tmp/obsidian-whisper'' @ ''/'' @ ''Recording 1_converted'' @ ''.'' @ ''wav'')
            my_settings (my_processor, installed_world)) = Rejected ResultFileNotFound
   \<and> fst (runTranscription early_run
            (''/tmp/obsidian-whisper'' @ ''/'' @ ''Recording 1_converted'' @ ''.'' @ ''wav'')
            my_settings (my_processor, installed_world)) = Pending
   \<and> currentChildProcess (fst (snd (runTranscription early_run
            (''/tmp/obsidian-whisper'' @ ''/'' @ ''Recording 1_converted'' @ ''.'' @ ''wav'')
            my_settings (my_processor, installed_world)))) = Some 0"
proof -
  have a: "existsSync installed_world (mlxWhisperPath my_processor)" by code_simp
  have b: "existsSync installed_world (path_join [venvPath my_processor, ''bin'', ''python3''])"
    by code_simp
  have c1: "exit_code good_run = 0" by code_simp
  have c2: "exit_code silent_run = 0" by code_simp
  have c3: "exit_code early_run = 0" by code_simp
  have e: "closes_before_probe early_run" by code_simp
  have n1: "''Recording 1_converted'' \<noteq> []" by simp
  have n2: "''Recording 1_converted'' \<noteq> ''.''" by simp
  have n3: "CHR ''/'' \<notin> set ''Recording 1_converted''" by simp
  have n4: "CHR ''/'' \<notin> set ''wav''" by simp
  have n5: "CHR ''.'' \<notin> set ''wav''" by simp
  have p1: "''/tmp/obsidian-whisper'' @ ''/'' @ ''Recording 1_converted'' @ ''.'' @ ''wav''
        = ''/tmp/obsidian-whisper/Recording 1_converted.wav''" by simp
  have p2: "path_join [tempDir my_processor, ''Recording 1_converted'' @ ''.txt'']
        = ''/tmp/obsidian-whisper/Recording 1_converted.txt''" by code_simp
  have d1: "(if closes_before_probe good_run then Pending
            else (case files (environment_after good_run installed_world)
                         (key installed_world (path_join [tempDir my_processor, ''Recording 1_converted'' @ ''.txt''])) of
                    Some c \<Rightarrow> Resolved (trim c)
                  | None \<Rightarrow>
                      if key installed_world (path_join [tempDir my_processor, ''Recording 1_converted'' @ ''.txt''])
                           \<in> dirs installed_world
                      then Rejected (ResultReadFailed
                             (IoError ''read'' (path_join [tempDir my_processor, ''Recording 1_converted'' @ ''.txt''])))
                      else Rejected ResultFileNotFound)) = Resolved ''hello world''" by code_simp
  have d2: "(if closes_before_probe silent_run then Pending
            else (case files (environment_after silent_run installed_world)
                         (key installed_world (path_join [tempDir my_processor, ''Recording 1_converted'' @ ''.txt''])) of
                    Some c \<Rightarrow> Resolved (trim c)
                  | None \<Rightarrow>
                      if key installed_world (path_join [tempDir my_processor, ''Recording 1_converted'' @ ''.txt''])
                           \<in> dirs installed_world
                      then Rejected (ResultReadFailed
                             (IoError ''read'' (path_join [tempDir my_processor, ''Recording 1_converted'' @ ''.txt''])))
                      else Rejected ResultFileNotFound)) = Rejected ResultFileNotFound" by code_simp
  have d3: "(if closes_before_probe early_run then Pending
            else (case files (environment_after early_run installed_world)
                         (key installed_world (path_join [tempDir my_processor, ''Recording 1_converted'' @ ''.txt''])) of
                    Some c \<Rightarrow> Resolved (trim c)
                  | None \<Rightarrow>
                      if key installed_world (path_join [tempDir my_processor, ''Recording 1_converted'' @ ''.txt''])
                           \<in> dirs installed_world
                      then Rejected (ResultReadFailed
                             (IoError ''read'' (path_join [tempDir my_processor, ''Recording 1_converted'' @ ''.txt''])))
                      else Rejected ResultFileNotFound)) = Pending" by code_simp
  have d4: "(if closes_before_probe early_run then Some (next_handle installed_world) else None)
            = Some 0" by code_simp
  note t1 = exit_zero_settles_only_when_heard[OF a b c1 n1 n2 n3 n4 n5,
              of "''/tmp/obsidian-whisper''" my_settings]
  note t2 = exit_zero_settles_only_when_heard[OF a b c2 n1 n2 n3 n4 n5,
              of "''/tmp/obsidian-whisper''" my_settings]
  note t3 = exit_zero_settles_only_when_heard[OF a b c3 n1 n2 n3 n4 n5,
              of "''/tmp/obsidian-whisper''" my_settings]
  note g1 = trans[OF conjunct1[OF t1] d1]
  note g2 = trans[OF conjunct1[OF t2] d2]
  note g3 = trans[OF conjunct1[OF t3] d3]
  note g4 = trans[OF conjunct2[OF t3] d4]
  show ?thesis
    by (rule conjI[OF a conjI[OF b conjI[OF c1 conjI[OF c2 conjI[OF c3 conjI[OF e conjI[OF p1
          conjI[OF p2 conjI[OF g1 conjI[OF g2 conjI[OF g3 g4]]]]]]]]]]])
qed


text \<open>
  Claim C2, at the input of its scenario. With the archive setting \<open>04_assets/audio\<close>
  and the base directory \<open>/vault\<close> passed by the caller as \<open>pluginDir\<close>, the archive
  directory is \<open>/04_assets/audio\<close>, under the parent of the base directory: that
  directory is created and the archive copy is stored there; nothing is created under
  \<open>/vault\<close>.
\<close>

theorem archive_goes_beside_the_vault:
  "audioDir my_settings = ''04_assets/audio''
   \<and> absoluteAudioDir_of w my_settings ''/vault'' = ''/04_assets/audio''
   \<and> fst (save_mp3 my_settings ''/vault'' ''Recording 1''
             ''/tmp/obsidian-whisper/Recording 1.mp3'' converted_world) = None
   \<and> ''/04_assets/audio'' \<in> dirs (snd (save_mp3 my_settings ''/vault'' ''Recording 1''
             ''/tmp/obsidian-whisper/Recording 1.mp3'' converted_world))
   \<and> files (snd (save_mp3 my_settings ''/vault'' ''Recording 1''
             ''/tmp/obsidian-whisper/Recording 1.mp3'' converted_world))
         ''/04_assets/audio/Recording 1.mp3'' = Some ''mp3''
   \<and> ''/vault/04_assets/audio'' \<notin> dirs (snd (save_mp3 my_settings ''/vault'' ''Recording 1''
             ''/tmp/obsidian-whisper/Recording 1.mp3'' converted_world))"
proof -
  have a: "audioDir my_settings = ''04_assets/audio''" by (simp add: my_settings_def)
  have "dirname ''/vault'' = ''/''" by code_simp
  moreover have "resolve c ''/'' = ''/''" for c
    by (simp add: resolve_def isAbsolute_def normalizeString_def Let_def)
  moreover have "path_join [''/'', ''04_assets/audio''] = ''/04_assets/audio''" by code_simp
  ultimately have b: "absoluteAudioDir_of w my_settings ''/vault'' = ''/04_assets/audio''"
    by (simp add: absoluteAudioDir_of_def vaultBasePath_of_def my_settings_def isAbsolute_def)
  have c: "fst (save_mp3 my_settings ''/vault'' ''Recording 1''
             ''/tmp/obsidian-whisper/Recording 1.mp3'' converted_world) = None" by code_simp
  have d: "''/04_assets/audio'' \<in> dirs (snd (save_mp3 my_settings ''/vault'' ''Recording 1''
             ''/tmp/obsidian-whisper/Recording 1.mp3'' converted_world))" by code_simp
  have e: "files (snd (save_mp3 my_settings ''/vault'' ''Recording 1''
             ''/tmp/obsidian-whisper/Recording 1.mp3'' converted_world))
         ''/04_assets/audio/Recording 1.mp3'' = Some ''mp3''" by code_simp
  have f: "''/vault/04_assets/audio'' \<notin> dirs (snd (save_mp3 my_settings ''/vault'' ''Recording 1''
             ''/tmp/obsidian-whisper/Recording 1.mp3'' converted_world))" by code_simp
  show ?thesis by (rule conjI[OF a conjI[OF b conjI[OF c conjI[OF d conjI[OF e f]]]]])
qed


















































text \<open>
  Claim C9. When the recognizer executable or its interpreter is not on disk,
  \<open>runTranscription\<close> fails with a dependency-missing error, and the processor and the
  world are what they were: nothing was spawned and no child process handle was
  stored.
\<close>

theorem missing_dependency_fails_before_spawn:
  assumes "\<not> existsSync w (mlxWhisperPath ap)
           \<or> \<not> existsSync w (path_join [venvPath ap, ''bin'', ''python3''])"
  shows "(\<exists>f. fst (runTranscription run audioPath st (ap, w)) = Rejected f \<and> DependencyMissing f)
       \<and> snd (runTranscription run audioPath st (ap, w)) = (ap, w)"
  using assms by (auto simp: runTranscription_def Let_def)

theorem missing_dependency_fails_before_spawn_witness:
  "\<not> existsSync bare_world (mlxWhisperPath my_processor)
   \<and> (\<exists>f. fst (runTranscription good_run ''/tmp/a.wav'' my_settings (my_processor, bare_world)) = Rejected f
          \<and> DependencyMissing f)
   \<and> snd (runTranscription good_run ''/tmp/a.wav'' my_settings (my_processor, bare_world))
       = (my_processor, bare_world)
   \<and> spawned (snd (snd (runTranscription good_run ''/tmp/a.wav'' my_settings (my_processor, bare_world)))) = []
   \<and> currentChildProcess (fst (snd (runTranscription good_run ''/tmp/a.wav'' my_settings (my_processor, bare_world)))) = None"
proof -
  have a: "\<not> existsSync bare_world (mlxWhisperPath my_processor)" by code_simp
  note t = missing_dependency_fails_before_spawn[OF disjI1[OF a], of good_run "''/tmp/a.wav''" my_settings]
  have s: "spawned bare_world = []" by (simp add: bare_world_def)
  have c: "currentChildProcess my_processor = None"
    by (simp add: my_processor_def new_AudioProcessor_def Let_def)
  show ?thesis using a t s c by simp
qed


text \<open>
  Claim C1, at a cancellation during the two conversions. Both conversions have been
  started by \<open>Promise.all\<close> and neither has finished; \<open>cancelProcessing\<close> is called.
  The one field \<open>currentFfmpegCommand\<close> holds the command started last (wav), so
  that command alone is sent \<open>SIGTERM\<close>: the mp3 command, whose handle is
  \<open>next_handle w\<close>, is not among the handles signalled, and the field is cleared.
\<close>

theorem cancel_reaches_only_the_last_command:
  assumes "currentChildProcess ap = None" and "Suc (next_handle w) \<notin> kill_throws w"
  shows "fst (start_conversions (ap, w)) = (next_handle w, Suc (next_handle w))
       \<and> signalled (snd (cancelProcessing (snd (start_conversions (ap, w)))))
           = signalled w @ [Suc (next_handle w)]
       \<and> currentFfmpegCommand (fst (cancelProcessing (snd (start_conversions (ap, w))))) = None"
  using assms
  by (simp add: start_conversions_def start_command_def cancelProcessing_def cancel_ffmpeg_def
      cancel_whisper_def kill_def)

theorem cancel_reaches_only_the_last_command_witness:
  "currentChildProcess my_processor = None
   \<and> Suc (next_handle installed_world) \<notin> kill_throws installed_world
   \<and> fst (start_conversions (my_processor, installed_world)) = (0, 1)
   \<and> signalled (snd (cancelProcessing (snd (start_conversions (my_processor, installed_world))))) = [1]"
proof -
  have a: "currentChildProcess my_processor = None"
    by (simp add: my_processor_def new_AudioProcessor_def Let_def)
  have b: "Suc (next_handle installed_world) \<notin> kill_throws installed_world"
    by (simp add: installed_world_def bare_world_def)
  have c: "next_handle installed_world = 0" "signalled installed_world = []"
    by (simp_all add: installed_world_def bare_world_def)
  from cancel_reaches_only_the_last_command[OF a b] a b c show ?thesis by simp
qed

text \<open>
  Claim C3, at the request of its scenario (language \<open>en\<close>, model size \<open>small\<close>). The
  argument list of the runner names the fixed model
  \<open>mlx-community/whisper-large-v3-turbo\<close> whatever the settings are, so the model id
  does not contain \<open>small\<close>; \<open>--language\<close> is followed by the language of the
  settings. The argument list of the other copy of the class does contain the model
  size.
\<close>

theorem model_id_ignores_modelSize:
  "whisper_command ap audioPath st ! 3 = ''mlx-community/whisper-large-v3-turbo''
   \<and> \<not> str_includes (whisper_command ap audioPath my_settings ! 3) (modelSize my_settings)
   \<and> whisper_command ap audioPath st ! 4 = ''--language''
   \<and> whisper_command ap audioPath st ! 5 = language st
   \<and> str_includes (whisper_command_by_size ap audioPath my_settings ! 3) (modelSize my_settings)"
  by (simp add: whisper_command_def whisper_command_by_size_def my_settings_def)

end
